theory Spec2Isabelle
  imports Main
begin

section \<open>JavaScript values seen by the response interceptor\<close>

text \<open>
  The interceptor (\<^verbatim>\<open>ResponseInterceptor.intercept\<close>) is untyped: the handler result
  \<^verbatim>\<open>data\<close> and the thrown \<^verbatim>\<open>error\<close> are arbitrary JavaScript values, and the code
  only reads properties of them and tests them for truthiness. Values are therefore
  modelled as a JSON-like datatype. An object is an association list from property
  names to values (the first binding of a name is the one that is read). Finite numbers
  are integers, \<open>JNaN\<close> is the number NaN: the interceptor never computes with a number,
  it only asks whether it is falsy, which holds of zero and NaN alone.
\<close>

datatype jsval =
    JUndefined
  | JNull
  | JBool bool
  | JNum int
  | JNaN
  | JStr string
  | JArr "jsval list"
  | JObj "(string \<times> jsval) list"

text \<open>JavaScript truthiness: the falsy values are \<^verbatim>\<open>undefined\<close>, \<^verbatim>\<open>null\<close>, \<^verbatim>\<open>false\<close>,
  \<^verbatim>\<open>0\<close>, \<^verbatim>\<open>NaN\<close> and the empty string; arrays and objects are always truthy.\<close>

fun truthy :: "jsval \<Rightarrow> bool" where
  "truthy JUndefined = False"
| "truthy JNull = False"
| "truthy (JBool b) = b"
| "truthy (JNum n) = (n \<noteq> 0)"
| "truthy JNaN = False"
| "truthy (JStr s) = (s \<noteq> [])"
| "truthy (JArr xs) = True"
| "truthy (JObj kvs) = True"

text \<open>\<^verbatim>\<open>a || b\<close>: the left operand when it is truthy, the right one otherwise.\<close>

definition js_or :: "jsval \<Rightarrow> jsval \<Rightarrow> jsval" where
  "js_or a b = (if truthy a then a else b)"

definition nullish :: "jsval \<Rightarrow> bool" where
  "nullish v = (v = JUndefined \<or> v = JNull)"

text \<open>Reading a property of a value that is neither \<^verbatim>\<open>null\<close> nor \<^verbatim>\<open>undefined\<close>.
  The interceptor reads only \<^verbatim>\<open>message\<close>, \<^verbatim>\<open>data\<close>, \<^verbatim>\<open>meta\<close>, \<^verbatim>\<open>status\<close>,
  \<^verbatim>\<open>response\<close>, \<^verbatim>\<open>error\<close> and \<^verbatim>\<open>name\<close>; primitives and arrays have none of
  these, so the read gives \<^verbatim>\<open>undefined\<close> there.\<close>

fun get_prop :: "jsval \<Rightarrow> string \<Rightarrow> jsval" where
  "get_prop (JObj kvs) k = (case map_of kvs k of None \<Rightarrow> JUndefined | Some v \<Rightarrow> v)"
| "get_prop v k = JUndefined"

text \<open>The \<^verbatim>\<open>TypeError\<close> the runtime throws for \<^verbatim>\<open>v.k\<close> when \<^verbatim>\<open>v\<close> is \<^verbatim>\<open>null\<close> or
  \<^verbatim>\<open>undefined\<close>, as the object the \<^verbatim>\<open>catchError\<close> callback then sees (message text as
  produced by V8).\<close>

definition type_error :: "jsval \<Rightarrow> string \<Rightarrow> jsval" where
  "type_error v k =
     JObj [(''name'', JStr ''TypeError''),
           (''message'', JStr (''Cannot read properties of ''
              @ (if v = JNull then ''null'' else ''undefined'')
              @ '' (reading '' @ [CHR 0x27] @ k @ [CHR 0x27] @ '')''))]"

text \<open>\<^verbatim>\<open>v.k\<close>: throws on \<^verbatim>\<open>null\<close> and \<^verbatim>\<open>undefined\<close> (\<open>Inl\<close> carries the thrown value).\<close>

definition member :: "jsval \<Rightarrow> string \<Rightarrow> jsval + jsval" where
  "member v k = (if nullish v then Inl (type_error v k) else Inr (get_prop v k))"

text \<open>\<^verbatim>\<open>v?.k\<close>: \<^verbatim>\<open>undefined\<close> on \<^verbatim>\<open>null\<close> and \<^verbatim>\<open>undefined\<close>, never throws.\<close>

definition opt_member :: "jsval \<Rightarrow> string \<Rightarrow> jsval" where
  "opt_member v k = (if nullish v then JUndefined else get_prop v k)"

section \<open>The response interceptor\<close>

text \<open>What the interceptor reads of the execution context: the response object's
  \<^verbatim>\<open>locals.message\<close> and \<^verbatim>\<open>statusCode\<close>.\<close>

record response =
  res_locals_message :: jsval
  res_statusCode :: jsval

text \<open>The two envelope shapes. A field holding \<open>JUndefined\<close> is a field that is absent
  from the serialised response.\<close>

record envelope =
  statusCode :: jsval
  message :: jsval
  data :: jsval

record success_envelope = envelope +
  meta :: jsval

record error_envelope = envelope +
  error :: jsval

text \<open>The callback given to \<^verbatim>\<open>map\<close>. The constants \<^verbatim>\<open>message\<close> and \<^verbatim>\<open>statusCode\<close> are
  computed first; \<^verbatim>\<open>data.message\<close> is the one unguarded property read and throws for a
  \<^verbatim>\<open>null\<close> or \<^verbatim>\<open>undefined\<close> result.\<close>

definition intercept_map :: "response \<Rightarrow> jsval \<Rightarrow> jsval + success_envelope" where
  "intercept_map res d =
     (let message0 = js_or (res_locals_message res) (JStr ''Success'');
          statusCode0 = js_or (res_statusCode res) (JNum 200)
      in case member d ''message'' of
           Inl thrown \<Rightarrow> Inl thrown
         | Inr dm \<Rightarrow>
             Inr \<lparr> statusCode = statusCode0,
                   message = js_or dm message0,
                   data = (if truthy (opt_member d ''data'') then opt_member d ''data''
                           else if truthy (opt_member d ''message'')
                                   \<and> \<not> truthy (opt_member d ''data'')
                                then JUndefined
                                else d),
                   meta = opt_member d ''meta'' \<rparr>)"

text \<open>The callback given to \<^verbatim>\<open>catchError\<close>; the envelope it builds is what
  \<^verbatim>\<open>throwError\<close> re-throws.\<close>

definition intercept_catchError :: "jsval \<Rightarrow> error_envelope" where
  "intercept_catchError e =
     (let status = js_or (opt_member e ''status'') (JNum 500);
          message0 = js_or (opt_member (opt_member e ''response'') ''message'')
                       (js_or (opt_member e ''message'') (JStr ''Internal server error''))
      in \<lparr> statusCode = status,
           message = message0,
           data = JNull,
           error = js_or (opt_member (opt_member e ''response'') ''error'')
                     (js_or (opt_member e ''name'') (JStr ''Error'')) \<rparr>)"

text \<open>\<^verbatim>\<open>next.handle().pipe(map(...), catchError(...))\<close>. The handler either throws
  (\<open>Inl\<close>) or returns a value (\<open>Inr\<close>). \<^verbatim>\<open>catchError\<close> sits downstream of \<^verbatim>\<open>map\<close>, so it
  also receives what the \<^verbatim>\<open>map\<close> callback throws.\<close>

definition intercept :: "response \<Rightarrow> jsval + jsval \<Rightarrow> error_envelope + success_envelope" where
  "intercept res outcome =
     (case outcome of
        Inl e \<Rightarrow> Inl (intercept_catchError e)
      | Inr d \<Rightarrow>
          (case intercept_map res d of
             Inl thrown \<Rightarrow> Inl (intercept_catchError thrown)
           | Inr env \<Rightarrow> Inr env))"

section \<open>Failures raised by the services\<close>

text \<open>
  Modelled from the spec: the framework's exception classes \<^verbatim>\<open>NotFoundException\<close> and
  \<^verbatim>\<open>UnauthorizedException\<close> are imported by the sources but not defined in them. Each
  is a typed failure with an HTTP-status-like code and a message (spec, section 7):
  404 for \<open>NotFoundException\<close>, 401 for \<open>UnauthorizedException\<close>.
\<close>

datatype http_exception =
    NotFoundException string
  | UnauthorizedException string

fun getStatus :: "http_exception \<Rightarrow> int" where
  "getStatus (NotFoundException m) = 404"
| "getStatus (UnauthorizedException m) = 401"

fun exception_message :: "http_exception \<Rightarrow> string" where
  "exception_message (NotFoundException m) = m"
| "exception_message (UnauthorizedException m) = m"

fun exception_description :: "http_exception \<Rightarrow> string" where
  "exception_description (NotFoundException m) = ''Not Found''"
| "exception_description (UnauthorizedException m) = ''Unauthorized''"

fun exception_name :: "http_exception \<Rightarrow> string" where
  "exception_name (NotFoundException m) = ''NotFoundException''"
| "exception_name (UnauthorizedException m) = ''UnauthorizedException''"

text \<open>
  Modelled from the spec: the object a thrown framework exception presents to the
  interceptor's \<^verbatim>\<open>catchError\<close> callback: its status code, its nested response (message,
  error kind, status code), its own message and its kind name.
\<close>

definition exception_object :: "http_exception \<Rightarrow> jsval" where
  "exception_object e =
     JObj [(''status'', JNum (getStatus e)),
           (''response'', JObj [(''message'', JStr (exception_message e)),
                                (''error'', JStr (exception_description e)),
                                (''statusCode'', JNum (getStatus e))]),
           (''message'', JStr (exception_message e)),
           (''name'', JStr (exception_name e))]"

section \<open>Users\<close>

text \<open>\<^verbatim>\<open>ConfigProps\<close> without the database block, which no modelled operation reads.\<close>

record ConfigProps =
  api_key :: string
  refresh_secret :: string
  access_secret :: string

text \<open>A row of the \<^verbatim>\<open>users\<close> table (field names prefixed with \<open>u_\<close>). The table is a
  list of rows in the order in which the repository returns them; neither the entity
  nor the migration declares \<^verbatim>\<open>email\<close> unique.\<close>

record UserEntity =
  u_id :: int
  u_name :: string
  u_email :: string
  u_password :: string

text \<open>\<^verbatim>\<open>LoginDto\<close>: the two fields that \<^verbatim>\<open>AuthService.login\<close> reads.\<close>

record LoginDto =
  dto_email :: string
  dto_password :: string

text \<open>\<^verbatim>\<open>usersRepository.findOne({ where: ... })\<close>: the first row that satisfies the
  condition, \<open>None\<close> for \<^verbatim>\<open>null\<close>.\<close>

definition users_findOne :: "(UserEntity \<Rightarrow> bool) \<Rightarrow> UserEntity list \<Rightarrow> UserEntity option" where
  "users_findOne cond users = find cond users"

text \<open>\<^verbatim>\<open>UsersService.findUserByEmailAndPassword\<close>. The password check
  \<^verbatim>\<open>bcrypt.compare(password, user.password)\<close> belongs to a library outside the sources
  and is the parameter \<open>compare\<close>.\<close>

definition UsersService_findUserByEmailAndPassword ::
  "(string \<Rightarrow> string \<Rightarrow> bool) \<Rightarrow> UserEntity list \<Rightarrow> string \<Rightarrow> string
     \<Rightarrow> http_exception + UserEntity" where
  "UsersService_findUserByEmailAndPassword compare users email password =
     (case users_findOne (\<lambda>u. u_email u = email) users of
        None \<Rightarrow> Inl (NotFoundException ''User not found'')
      | Some user \<Rightarrow>
          if \<not> compare password (u_password user)
          then Inl (UnauthorizedException ''Invalid password'')
          else Inr user)"

text \<open>\<^verbatim>\<open>UsersService.findUserById\<close>.\<close>

definition UsersService_findUserById :: "UserEntity list \<Rightarrow> int \<Rightarrow> http_exception + UserEntity" where
  "UsersService_findUserById users i =
     (case users_findOne (\<lambda>u. u_id u = i) users of
        None \<Rightarrow> Inl (NotFoundException ''User not found'')
      | Some user \<Rightarrow> Inr user)"

section \<open>Token issuer and verifier\<close>

record token_payload =
  p_id :: int
  p_email :: string

text \<open>The \<^verbatim>\<open>expiresIn\<close> option: \<^verbatim>\<open>'1m'\<close> is \<open>Minutes 1\<close>, \<^verbatim>\<open>'7d'\<close> is \<open>Days 7\<close>.\<close>

datatype expiresIn = Seconds nat | Minutes nat | Days nat

fun span_seconds :: "expiresIn \<Rightarrow> nat" where
  "span_seconds (Seconds n) = n"
| "span_seconds (Minutes n) = 60 * n"
| "span_seconds (Days n) = 86400 * n"

text \<open>
  Modelled from the spec: the token issuer/verifier (\<^verbatim>\<open>jwtService.sign\<close> and
  \<^verbatim>\<open>jwtService.verify\<close>) is called by the sources but is not part of them. Following
  section 4.2 of the spec, a token is modelled symbolically: issuing serialises the
  payload, signs it with the secret and embeds the expiry derived from the time to live;
  any other string is a structurally invalid token. There is no kind field: an access
  token and a refresh token differ only in the signing secret and the expiry. Time is
  the clock's reading in seconds.
\<close>

datatype token =
    Signed token_payload string nat
  | Garbage string

datatype jwt_error = InvalidSignature | Expired | Malformed

definition jwtService_sign :: "nat \<Rightarrow> token_payload \<Rightarrow> string \<Rightarrow> expiresIn \<Rightarrow> token" where
  "jwtService_sign now payload secret ttl = Signed payload secret (now + span_seconds ttl)"

text \<open>
  Modelled from the spec: verification rejects structurally invalid tokens, tokens signed
  with a different secret and tokens past their expiry, in this order; a token is valid
  only before its expiry.
\<close>

fun jwtService_verify :: "nat \<Rightarrow> token \<Rightarrow> string \<Rightarrow> jwt_error + token_payload" where
  "jwtService_verify now (Garbage s) secret = Inl Malformed"
| "jwtService_verify now (Signed payload signer expiry) secret =
     (if signer \<noteq> secret then Inl InvalidSignature
      else if expiry \<le> now then Inl Expired
      else Inr payload)"

section \<open>Authentication service\<close>

text \<open>The objects returned by \<^verbatim>\<open>refreshToken\<close> (\<^verbatim>\<open>{ accessToken }\<close>) and by \<^verbatim>\<open>login\<close>
  (\<^verbatim>\<open>{ accessToken, refreshToken }\<close>).\<close>

record refresh_result =
  accessToken :: token

record login_result = refresh_result +
  refreshToken :: token

text \<open>\<^verbatim>\<open>AuthService.login\<close>. The function has no \<^verbatim>\<open>try\<close>: a failure of the user lookup
  propagates unchanged. \<open>now\<close> is the clock at the time of the call.\<close>

definition AuthService_login ::
  "(string \<Rightarrow> string \<Rightarrow> bool) \<Rightarrow> ConfigProps \<Rightarrow> UserEntity list \<Rightarrow> nat \<Rightarrow> LoginDto
     \<Rightarrow> http_exception + login_result" where
  "AuthService_login compare cfg users now loginDto =
     (case UsersService_findUserByEmailAndPassword compare users
             (dto_email loginDto) (dto_password loginDto) of
        Inl e \<Rightarrow> Inl e
      | Inr user \<Rightarrow>
          (let payload = \<lparr> p_id = u_id user, p_email = u_email user \<rparr>;
               accessToken0 = jwtService_sign now payload (access_secret cfg) (Minutes 1);
               refreshToken0 = jwtService_sign now payload (refresh_secret cfg) (Days 7)
           in Inr \<lparr> accessToken = accessToken0, refreshToken = refreshToken0 \<rparr>))"

text \<open>What can be thrown inside the \<^verbatim>\<open>try\<close> block of \<^verbatim>\<open>refreshToken\<close>: a verification
  error of the token library or an exception of the user lookup.\<close>

datatype thrown = JwtError jwt_error | HttpError http_exception

text \<open>The body of the \<^verbatim>\<open>try\<close> block of \<^verbatim>\<open>AuthService.refreshToken\<close>.\<close>

definition refreshToken_try ::
  "ConfigProps \<Rightarrow> UserEntity list \<Rightarrow> nat \<Rightarrow> token \<Rightarrow> thrown + refresh_result" where
  "refreshToken_try cfg users now tok =
     (case jwtService_verify now tok (refresh_secret cfg) of
        Inl je \<Rightarrow> Inl (JwtError je)
      | Inr payload \<Rightarrow>
          (case UsersService_findUserById users (p_id payload) of
             Inl e \<Rightarrow> Inl (HttpError e)
           | Inr user \<Rightarrow>
               Inr \<lparr> accessToken =
                       jwtService_sign now \<lparr> p_id = u_id user, p_email = u_email user \<rparr>
                         (access_secret cfg) (Minutes 1) \<rparr>))"

text \<open>\<^verbatim>\<open>AuthService.refreshToken\<close>: the \<^verbatim>\<open>catch\<close> clause logs the error and throws the
  same exception whatever was caught (the log line has no effect on the result and is
  left out).\<close>

definition AuthService_refreshToken ::
  "ConfigProps \<Rightarrow> UserEntity list \<Rightarrow> nat \<Rightarrow> token \<Rightarrow> http_exception + refresh_result" where
  "AuthService_refreshToken cfg users now tok =
     (case refreshToken_try cfg users now tok of
        Inl caught \<Rightarrow> Inl (UnauthorizedException ''Invalid refresh token'')
      | Inr result \<Rightarrow> Inr result)"

section \<open>Todo service\<close>

text \<open>A row of the \<^verbatim>\<open>todos\<close> table (field names prefixed with \<open>t_\<close>).\<close>

record TodoEntity =
  t_id :: int
  t_title :: string
  t_description :: string
  t_user_id :: int
  t_created_at :: nat

text \<open>
  Modelled from the spec: \<^verbatim>\<open>UpdateTodoDto\<close> is imported by the sources but not defined in
  them; it is taken to be \<^verbatim>\<open>CreateTodoDto\<close> with every field optional.
\<close>

record UpdateTodoDto =
  upd_title :: "string option"
  upd_description :: "string option"

definition apply_update :: "UpdateTodoDto \<Rightarrow> TodoEntity \<Rightarrow> TodoEntity" where
  "apply_update dto t =
     t \<lparr> t_title := (case upd_title dto of None \<Rightarrow> t_title t | Some x \<Rightarrow> x),
         t_description := (case upd_description dto of None \<Rightarrow> t_description t | Some x \<Rightarrow> x) \<rparr>"

text \<open>What \<^verbatim>\<open>TodosService.update\<close> can throw: its own \<open>NotFoundException\<close>, or the
  error with which the repository rejects an update that sets no column.\<close>

datatype update_thrown =
    HttpThrown http_exception
  | UpdateValuesMissingError

text \<open>\<^verbatim>\<open>todoRepository.update(id, updateTodoDto)\<close>. The repository belongs to the
  persistence library, outside the sources. It writes the columns that the DTO sets in
  the rows with that id; a DTO that sets no column is rejected with
  \<open>UpdateValuesMissingError\<close> before any row is touched.\<close>

definition todoRepository_update ::
  "TodoEntity list \<Rightarrow> int \<Rightarrow> UpdateTodoDto \<Rightarrow> update_thrown + TodoEntity list" where
  "todoRepository_update todos i updateTodoDto =
     (if upd_title updateTodoDto = None \<and> upd_description updateTodoDto = None
      then Inl UpdateValuesMissingError
      else Inr (map (\<lambda>t. if t_id t = i then apply_update updateTodoDto t else t) todos))"

text \<open>\<^verbatim>\<open>TodosService.update\<close>: the table after the call and the message of the returned
  object. The lookup comes first, so an absent id gives \<open>NotFoundException\<close> whatever the
  DTO; an error of the repository propagates unchanged. The function receives no
  identity of the caller.\<close>

definition TodosService_update ::
  "TodoEntity list \<Rightarrow> int \<Rightarrow> UpdateTodoDto \<Rightarrow> update_thrown + (TodoEntity list \<times> string)" where
  "TodosService_update todos i updateTodoDto =
     (case find (\<lambda>t. t_id t = i) todos of
        None \<Rightarrow> Inl (HttpThrown (NotFoundException ''Todo not found''))
      | Some todo \<Rightarrow>
          (case todoRepository_update todos i updateTodoDto of
             Inl thrown \<Rightarrow> Inl thrown
           | Inr todos' \<Rightarrow> Inr (todos', ''Todo updated successfully'')))"

text \<open>\<^verbatim>\<open>TodosService.remove\<close>: \<^verbatim>\<open>todoRepository.delete(id)\<close> deletes the rows with
  that id.\<close>

definition TodosService_remove ::
  "TodoEntity list \<Rightarrow> int \<Rightarrow> http_exception + (TodoEntity list \<times> string)" where
  "TodosService_remove todos i =
     (case find (\<lambda>t. t_id t = i) todos of
        None \<Rightarrow> Inl (NotFoundException ''Todo not found'')
      | Some todo \<Rightarrow>
          Inr (filter (\<lambda>t. t_id t \<noteq> i) todos, ''Todo deleted successfully''))"

section \<open>The envelopes as the specification words them\<close>

text \<open>The specification describes both envelopes in terms of fields that are "present" or
  "absent". The following two functions follow its words, reading "present" as "not
  \<^verbatim>\<open>undefined\<close>"; they are compared with the interceptor below.\<close>

definition present :: "jsval \<Rightarrow> bool" where
  "present v = (v \<noteq> JUndefined)"

text \<open>Success path as worded: the message is the result's \<^verbatim>\<open>message\<close> field if present,
  else the default "Success"; the status code is the response status, default 200; the
  data field is the result's \<^verbatim>\<open>data\<close> sub-field if the result carries one, else absent
  if the result carries a \<^verbatim>\<open>message\<close> field, else the whole result; \<^verbatim>\<open>meta\<close> is passed
  through.\<close>

definition claimed_success_envelope :: "response \<Rightarrow> jsval \<Rightarrow> success_envelope" where
  "claimed_success_envelope res d =
     \<lparr> statusCode = (if present (res_statusCode res) then res_statusCode res else JNum 200),
       message = (if present (opt_member d ''message'') then opt_member d ''message''
                  else JStr ''Success''),
       data = (if present (opt_member d ''data'') then opt_member d ''data''
               else if present (opt_member d ''message'') then JUndefined
               else d),
       meta = opt_member d ''meta'' \<rparr>"

text \<open>Failure path as worded: the status code of the failure, 500 when absent; the nested
  response message, else the failure's own message, else "Internal server error"; the
  nested response error field, else the failure's kind name, else "Error"; data is
  \<^verbatim>\<open>null\<close>.\<close>

definition claimed_error_envelope :: "jsval \<Rightarrow> error_envelope" where
  "claimed_error_envelope e =
     \<lparr> statusCode = (if present (opt_member e ''status'') then opt_member e ''status''
                     else JNum 500),
       message = (if present (opt_member (opt_member e ''response'') ''message'')
                  then opt_member (opt_member e ''response'') ''message''
                  else if present (opt_member e ''message'') then opt_member e ''message''
                  else JStr ''Internal server error''),
       data = JNull,
       error = (if present (opt_member (opt_member e ''response'') ''error'')
                then opt_member (opt_member e ''response'') ''error''
                else if present (opt_member e ''name'') then opt_member e ''name''
                else JStr ''Error'') \<rparr>"

section \<open>Auxiliary facts\<close>

text \<open>The success callback on results that are, and that are not, \<^verbatim>\<open>null\<close> or
  \<^verbatim>\<open>undefined\<close>.\<close>

lemma intercept_map_non_nullish:
  assumes "d \<noteq> JNull" and "d \<noteq> JUndefined"
  shows "intercept_map res d =
     Inr \<lparr> statusCode = js_or (res_statusCode res) (JNum 200),
           message = js_or (get_prop d ''message'') (js_or (res_locals_message res) (JStr ''Success'')),
           data = (if truthy (get_prop d ''data'') then get_prop d ''data''
                   else if truthy (get_prop d ''message'') then JUndefined else d),
           meta = get_prop d ''meta'' \<rparr>"
  using assms by (simp add: intercept_map_def member_def opt_member_def nullish_def Let_def)

lemma intercept_map_nullish:
  assumes "d = JNull \<or> d = JUndefined"
  shows "intercept_map res d = Inl (type_error d ''message'')"
  using assms by (auto simp add: intercept_map_def member_def nullish_def Let_def)

text \<open>The lookup returns a stored row that satisfies the condition, returns nothing
  exactly when no stored row satisfies it, and returns a given row when that is the only
  one satisfying it (every stored user, when emails are unique).\<close>

lemma users_findOne_Some:
  "users_findOne cond users = Some u \<Longrightarrow> u \<in> set users \<and> cond u"
  unfolding users_findOne_def by (induction users) (auto split: if_splits)

lemma users_findOne_None:
  "users_findOne cond users = None \<longleftrightarrow> (\<forall>u\<in>set users. \<not> cond u)"
  unfolding users_findOne_def by (auto simp add: find_None_iff)

lemma users_findOne_unique:
  assumes "u \<in> set users" and "cond u" and "\<forall>v\<in>set users. cond v \<longrightarrow> v = u"
  shows "users_findOne cond users = Some u"
proof (cases "users_findOne cond users")
  case None
  then have "\<forall>u\<in>set users. \<not> cond u" by (simp only: users_findOne_None)
  with assms(1,2) show ?thesis by blast
next
  case (Some v)
  from users_findOne_Some [OF Some] have v: "v \<in> set users" "cond v" by simp_all
  from assms(3) v(1) have "cond v \<longrightarrow> v = u" by (rule bspec)
  from this v(2) have "v = u" by (rule mp)
  with Some show ?thesis by (simp only:)
qed

text \<open>How an \<open>UnauthorizedException\<close> with a non-empty message appears in the error
  envelope.\<close>

lemma unauthorized_surface:
  "m \<noteq> [] \<Longrightarrow> intercept res (Inl (exception_object (UnauthorizedException m))) =
     Inl \<lparr> statusCode = JNum 401, message = JStr m, data = JNull, error = JStr ''Unauthorized'' \<rparr>"
  by (simp add: intercept_def intercept_catchError_def exception_object_def opt_member_def
        nullish_def js_or_def)

text \<open>Verification has no other errors than the three of the specification.\<close>

lemma jwt_error_cases: "je = InvalidSignature \<or> je = Expired \<or> je = Malformed"
  by (cases je) simp_all

text \<open>The todo operations commute with reassigning every todo to one owner.\<close>

lemma find_todo_None: "find (\<lambda>t. t_id t = i) todos = None \<longleftrightarrow> (\<forall>t\<in>set todos. t_id t \<noteq> i)"
  by (auto simp add: find_None_iff)

lemma find_todo_chown:
  "(find (\<lambda>t. t_id t = i) (map (\<lambda>t. t\<lparr>t_user_id := c\<rparr>) todos) = None)
     = (find (\<lambda>t. t_id t = i) todos = None)"
  by (induction todos) simp_all

lemma apply_update_chown:
  "apply_update dto (t\<lparr>t_user_id := c\<rparr>) = (apply_update dto t)\<lparr>t_user_id := c\<rparr>"
  by (cases t) (simp add: apply_update_def split: option.splits)

lemma remove_chown:
  "TodosService_remove (map (\<lambda>t. t\<lparr>t_user_id := c\<rparr>) todos) i
     = map_sum id (map_prod (map (\<lambda>t. t\<lparr>t_user_id := c\<rparr>)) id) (TodosService_remove todos i)"
proof (cases "find (\<lambda>t. t_id t = i) todos")
  case None
  then show ?thesis
    using find_todo_chown [of i c todos] by (simp add: TodosService_remove_def)
next
  case (Some a)
  then obtain b where "find (\<lambda>t. t_id t = i) (map (\<lambda>t. t\<lparr>t_user_id := c\<rparr>) todos) = Some b"
    using find_todo_chown [of i c todos] by (cases "find (\<lambda>t. t_id t = i) (map (\<lambda>t. t\<lparr>t_user_id := c\<rparr>) todos)") simp_all
  with Some show ?thesis
    by (simp add: TodosService_remove_def filter_map comp_def)
qed

lemma update_chown:
  "TodosService_update (map (\<lambda>t. t\<lparr>t_user_id := c\<rparr>) todos) i dto
     = map_sum id (map_prod (map (\<lambda>t. t\<lparr>t_user_id := c\<rparr>)) id) (TodosService_update todos i dto)"
proof (cases "find (\<lambda>t. t_id t = i) todos")
  case None
  then show ?thesis
    using find_todo_chown [of i c todos] by (simp add: TodosService_update_def)
next
  case (Some a)
  then obtain b where "find (\<lambda>t. t_id t = i) (map (\<lambda>t. t\<lparr>t_user_id := c\<rparr>) todos) = Some b"
    using find_todo_chown [of i c todos] by (cases "find (\<lambda>t. t_id t = i) (map (\<lambda>t. t\<lparr>t_user_id := c\<rparr>) todos)") simp_all
  with Some show ?thesis
    by (simp add: TodosService_update_def todoRepository_update_def comp_def apply_update_chown)
qed

section \<open>Authentication flow\<close>

text \<open>
  Claim C1. For every input to the refresh operation, any failure during it (an expired
  token, a malformed token, a token signed with a secret other than the refresh secret,
  or the user lookup by the payload's id finding no user) results in one and the same
  failure: \<open>UnauthorizedException\<close> with message "Invalid refresh token", status 401. It
  is the only failure the operation has, so the caller cannot tell the causes apart; in
  the error envelope it shows as status code 401 with that message.
\<close>

theorem refreshToken_failures_collapse:
  "(\<forall>e. AuthService_refreshToken cfg users now tok = Inl e
        \<longrightarrow> e = UnauthorizedException ''Invalid refresh token'')
   \<and> (\<forall>je. jwtService_verify now tok (refresh_secret cfg) = Inl je
        \<longrightarrow> AuthService_refreshToken cfg users now tok
              = Inl (UnauthorizedException ''Invalid refresh token''))
   \<and> (\<forall>p e. jwtService_verify now tok (refresh_secret cfg) = Inr p
            \<and> UsersService_findUserById users (p_id p) = Inl e
        \<longrightarrow> AuthService_refreshToken cfg users now tok
              = Inl (UnauthorizedException ''Invalid refresh token''))
   \<and> getStatus (UnauthorizedException ''Invalid refresh token'') = 401
   \<and> intercept res (Inl (exception_object (UnauthorizedException ''Invalid refresh token'')))
       = Inl \<lparr> statusCode = JNum 401, message = JStr ''Invalid refresh token'',
               data = JNull, error = JStr ''Unauthorized'' \<rparr>"
  by (auto simp add: AuthService_refreshToken_def refreshToken_try_def unauthorized_surface
        split: sum.splits)

theorem refreshToken_failures_collapse_witness:
  "AuthService_refreshToken
       \<lparr> api_key = ''k'', refresh_secret = ''r-secret'', access_secret = ''a-secret'' \<rparr>
       [\<lparr> u_id = 1, u_name = ''Ann'', u_email = ''ann@example.com'', u_password = ''h1'' \<rparr>]
       100 (Signed \<lparr> p_id = 1, p_email = ''ann@example.com'' \<rparr> ''r-secret'' 100)
     = Inl (UnauthorizedException ''Invalid refresh token'')
   \<and> AuthService_refreshToken
       \<lparr> api_key = ''k'', refresh_secret = ''r-secret'', access_secret = ''a-secret'' \<rparr>
       [\<lparr> u_id = 1, u_name = ''Ann'', u_email = ''ann@example.com'', u_password = ''h1'' \<rparr>]
       100 (Garbage ''not-a-token'')
     = Inl (UnauthorizedException ''Invalid refresh token'')
   \<and> AuthService_refreshToken
       \<lparr> api_key = ''k'', refresh_secret = ''r-secret'', access_secret = ''a-secret'' \<rparr>
       [\<lparr> u_id = 1, u_name = ''Ann'', u_email = ''ann@example.com'', u_password = ''h1'' \<rparr>]
       100 (Signed \<lparr> p_id = 1, p_email = ''ann@example.com'' \<rparr> ''a-secret'' 160)
     = Inl (UnauthorizedException ''Invalid refresh token'')
   \<and> AuthService_refreshToken
       \<lparr> api_key = ''k'', refresh_secret = ''r-secret'', access_secret = ''a-secret'' \<rparr>
       [\<lparr> u_id = 1, u_name = ''Ann'', u_email = ''ann@example.com'', u_password = ''h1'' \<rparr>]
       100 (Signed \<lparr> p_id = 2, p_email = ''bob@example.com'' \<rparr> ''r-secret'' 5000)
     = Inl (UnauthorizedException ''Invalid refresh token'')"
proof -
  let ?cfg = "\<lparr> api_key = ''k'', refresh_secret = ''r-secret'', access_secret = ''a-secret'' \<rparr>"
  let ?users = "[\<lparr> u_id = 1, u_name = ''Ann'', u_email = ''ann@example.com'', u_password = ''h1'' \<rparr>]"
  let ?bob = "\<lparr> p_id = 2, p_email = ''bob@example.com'' \<rparr>"
  have expired: "jwtService_verify 100 (Signed \<lparr> p_id = 1, p_email = ''ann@example.com'' \<rparr> ''r-secret'' 100)
      (refresh_secret ?cfg) = Inl Expired" by simp
  have malformed: "jwtService_verify 100 (Garbage ''not-a-token'') (refresh_secret ?cfg) = Inl Malformed"
    by simp
  have wrong: "jwtService_verify 100 (Signed \<lparr> p_id = 1, p_email = ''ann@example.com'' \<rparr> ''a-secret'' 160)
      (refresh_secret ?cfg) = Inl InvalidSignature" by simp
  have deleted: "jwtService_verify 100 (Signed ?bob ''r-secret'' 5000) (refresh_secret ?cfg) = Inr ?bob
      \<and> UsersService_findUserById ?users (p_id ?bob) = Inl (NotFoundException ''User not found'')"
    by (simp add: UsersService_findUserById_def users_findOne_def)
  show ?thesis
    using refreshToken_failures_collapse [of ?cfg ?users 100 _ undefined] expired malformed wrong deleted
    by blast
qed

text \<open>
  Claim C2. Login fails with \<open>NotFoundException\<close> when no stored user has the given email,
  and with \<open>UnauthorizedException\<close> "Invalid password" (status code 401 in the error
  envelope) when a user with that email exists but the password does not match the
  stored hash: the hash of the row that the lookup by email returns, and so also when it
  matches the hash of no stored user with that email. These are the only two failures of
  login, and a failure carries no tokens.
\<close>

theorem login_failures:
  "((\<forall>u\<in>set users. u_email u \<noteq> dto_email dto)
      \<longrightarrow> AuthService_login compare cfg users now dto = Inl (NotFoundException ''User not found''))
   \<and> (\<forall>u. users_findOne (\<lambda>u. u_email u = dto_email dto) users = Some u
            \<and> \<not> compare (dto_password dto) (u_password u)
      \<longrightarrow> AuthService_login compare cfg users now dto
            = Inl (UnauthorizedException ''Invalid password''))
   \<and> ((\<exists>u\<in>set users. u_email u = dto_email dto)
        \<and> (\<forall>u\<in>set users. u_email u = dto_email dto
               \<longrightarrow> \<not> compare (dto_password dto) (u_password u))
      \<longrightarrow> AuthService_login compare cfg users now dto
            = Inl (UnauthorizedException ''Invalid password''))
   \<and> (\<forall>e. AuthService_login compare cfg users now dto = Inl e
      \<longrightarrow> e = NotFoundException ''User not found'' \<or> e = UnauthorizedException ''Invalid password'')
   \<and> getStatus (NotFoundException ''User not found'') = 404
   \<and> getStatus (UnauthorizedException ''Invalid password'') = 401
   \<and> intercept res (Inl (exception_object (UnauthorizedException ''Invalid password'')))
       = Inl \<lparr> statusCode = JNum 401, message = JStr ''Invalid password'',
               data = JNull, error = JStr ''Unauthorized'' \<rparr>"
proof -
  have nf: "(\<forall>u\<in>set users. u_email u \<noteq> dto_email dto)
      \<longrightarrow> AuthService_login compare cfg users now dto = Inl (NotFoundException ''User not found'')"
  proof
    assume "\<forall>u\<in>set users. u_email u \<noteq> dto_email dto"
    then have "users_findOne (\<lambda>u. u_email u = dto_email dto) users = None"
      by (simp add: users_findOne_None)
    then show "AuthService_login compare cfg users now dto = Inl (NotFoundException ''User not found'')"
      by (simp add: AuthService_login_def UsersService_findUserByEmailAndPassword_def)
  qed
  have bad: "\<forall>u. users_findOne (\<lambda>u. u_email u = dto_email dto) users = Some u
            \<and> \<not> compare (dto_password dto) (u_password u)
      \<longrightarrow> AuthService_login compare cfg users now dto
            = Inl (UnauthorizedException ''Invalid password'')"
    by (simp add: AuthService_login_def UsersService_findUserByEmailAndPassword_def)
  have none_matches: "(\<exists>u\<in>set users. u_email u = dto_email dto)
        \<and> (\<forall>u\<in>set users. u_email u = dto_email dto
               \<longrightarrow> \<not> compare (dto_password dto) (u_password u))
      \<longrightarrow> AuthService_login compare cfg users now dto
            = Inl (UnauthorizedException ''Invalid password'')"
  proof
    assume a: "(\<exists>u\<in>set users. u_email u = dto_email dto)
        \<and> (\<forall>u\<in>set users. u_email u = dto_email dto
               \<longrightarrow> \<not> compare (dto_password dto) (u_password u))"
    then have "users_findOne (\<lambda>u. u_email u = dto_email dto) users \<noteq> None"
      by (simp add: users_findOne_None)
    then obtain u where u: "users_findOne (\<lambda>u. u_email u = dto_email dto) users = Some u"
      by blast
    from users_findOne_Some [OF u] a have "\<not> compare (dto_password dto) (u_password u)"
      by blast
    with u bad show "AuthService_login compare cfg users now dto
            = Inl (UnauthorizedException ''Invalid password'')"
      by blast
  qed
  have only: "\<forall>e. AuthService_login compare cfg users now dto = Inl e
      \<longrightarrow> e = NotFoundException ''User not found'' \<or> e = UnauthorizedException ''Invalid password''"
    by (auto simp add: AuthService_login_def UsersService_findUserByEmailAndPassword_def Let_def
          split: option.splits if_splits)
  show ?thesis
    using nf bad none_matches only by (simp add: unauthorized_surface)
qed

theorem login_failures_witness:
  "AuthService_login (\<lambda>pw h. h = ''hash-of-'' @ pw)
       \<lparr> api_key = ''k'', refresh_secret = ''r-secret'', access_secret = ''a-secret'' \<rparr>
       [\<lparr> u_id = 1, u_name = ''Test'', u_email = ''test@example.com'',
          u_password = ''hash-of-password123'' \<rparr>]
       1000 \<lparr> dto_email = ''nobody@example.com'', dto_password = ''password123'' \<rparr>
     = Inl (NotFoundException ''User not found'')
   \<and> AuthService_login (\<lambda>pw h. h = ''hash-of-'' @ pw)
       \<lparr> api_key = ''k'', refresh_secret = ''r-secret'', access_secret = ''a-secret'' \<rparr>
       [\<lparr> u_id = 1, u_name = ''Test'', u_email = ''test@example.com'',
          u_password = ''hash-of-password123'' \<rparr>]
       1000 \<lparr> dto_email = ''test@example.com'', dto_password = ''wrong'' \<rparr>
     = Inl (UnauthorizedException ''Invalid password'')"
  using login_failures
          [where users = "[\<lparr> u_id = 1, u_name = ''Test'', u_email = ''test@example.com'',
          u_password = ''hash-of-password123'' \<rparr>]"
             and dto = "\<lparr> dto_email = ''nobody@example.com'', dto_password = ''password123'' \<rparr>"
             and compare = "(\<lambda>pw h. h = ''hash-of-'' @ pw)"
             and cfg = "\<lparr> api_key = ''k'', refresh_secret = ''r-secret'', access_secret = ''a-secret'' \<rparr>"
             and now = 1000 and res = undefined]
        login_failures
          [where users = "[\<lparr> u_id = 1, u_name = ''Test'', u_email = ''test@example.com'',
          u_password = ''hash-of-password123'' \<rparr>]"
             and dto = "\<lparr> dto_email = ''test@example.com'', dto_password = ''wrong'' \<rparr>"
             and compare = "(\<lambda>pw h. h = ''hash-of-'' @ pw)"
             and cfg = "\<lparr> api_key = ''k'', refresh_secret = ''r-secret'', access_secret = ''a-secret'' \<rparr>"
             and now = 1000 and res = undefined]
  by (simp add: users_findOne_def)

text \<open>
  Claim C3, amended. For every stored user that the lookup by email returns (the first
  stored user with that email; every stored user when emails are unique) and matching
  (email, password) pair, login returns exactly an access token and a refresh token. The
  access token is signed with the access secret and expires one minute (60 seconds)
  after the call, the refresh token is signed with the refresh secret and expires seven
  days (604800 seconds) after it. Both carry the same payload, the id and the email of
  that stored user record, and each verifies to it under its own secret until it expires.
\<close>

theorem login_issues_token_pair:
  assumes "users_findOne (\<lambda>u. u_email u = dto_email dto) users = Some u"
      and "compare (dto_password dto) (u_password u)"
  shows "u \<in> set users \<and> u_email u = dto_email dto
     \<and> AuthService_login compare cfg users now dto =
         Inr \<lparr> accessToken = jwtService_sign now \<lparr> p_id = u_id u, p_email = u_email u \<rparr>
                               (access_secret cfg) (Minutes 1),
               refreshToken = jwtService_sign now \<lparr> p_id = u_id u, p_email = u_email u \<rparr>
                                (refresh_secret cfg) (Days 7) \<rparr>
     \<and> jwtService_sign now \<lparr> p_id = u_id u, p_email = u_email u \<rparr> (access_secret cfg) (Minutes 1)
         = Signed \<lparr> p_id = u_id u, p_email = u_email u \<rparr> (access_secret cfg) (now + 60)
     \<and> jwtService_sign now \<lparr> p_id = u_id u, p_email = u_email u \<rparr> (refresh_secret cfg) (Days 7)
         = Signed \<lparr> p_id = u_id u, p_email = u_email u \<rparr> (refresh_secret cfg) (now + 604800)
     \<and> (\<forall>t. t < now + 60 \<longrightarrow>
           jwtService_verify t
             (jwtService_sign now \<lparr> p_id = u_id u, p_email = u_email u \<rparr> (access_secret cfg) (Minutes 1))
             (access_secret cfg) = Inr \<lparr> p_id = u_id u, p_email = u_email u \<rparr>)
     \<and> (\<forall>t. t < now + 604800 \<longrightarrow>
           jwtService_verify t
             (jwtService_sign now \<lparr> p_id = u_id u, p_email = u_email u \<rparr> (refresh_secret cfg) (Days 7))
             (refresh_secret cfg) = Inr \<lparr> p_id = u_id u, p_email = u_email u \<rparr>)"
  using assms users_findOne_Some [OF assms(1)]
  by (simp add: AuthService_login_def UsersService_findUserByEmailAndPassword_def
        jwtService_sign_def Let_def)

theorem login_issues_token_pair_witness:
  "AuthService_login (\<lambda>pw h. h = ''hash-of-'' @ pw)
       \<lparr> api_key = ''k'', refresh_secret = ''r-secret'', access_secret = ''a-secret'' \<rparr>
       [\<lparr> u_id = 1, u_name = ''Test'', u_email = ''test@example.com'',
          u_password = ''hash-of-password123'' \<rparr>]
       1000 \<lparr> dto_email = ''test@example.com'', dto_password = ''password123'' \<rparr>
     = Inr \<lparr> accessToken = Signed \<lparr> p_id = 1, p_email = ''test@example.com'' \<rparr> ''a-secret'' 1060,
             refreshToken = Signed \<lparr> p_id = 1, p_email = ''test@example.com'' \<rparr> ''r-secret'' 605800 \<rparr>
   \<and> jwtService_verify 1059 (Signed \<lparr> p_id = 1, p_email = ''test@example.com'' \<rparr> ''a-secret'' 1060) ''a-secret''
     = Inr \<lparr> p_id = 1, p_email = ''test@example.com'' \<rparr>
   \<and> jwtService_verify 605799 (Signed \<lparr> p_id = 1, p_email = ''test@example.com'' \<rparr> ''r-secret'' 605800) ''r-secret''
     = Inr \<lparr> p_id = 1, p_email = ''test@example.com'' \<rparr>"
proof -
  have found: "users_findOne (\<lambda>u. u_email u = dto_email
        \<lparr> dto_email = ''test@example.com'', dto_password = ''password123'' \<rparr>)
      [\<lparr> u_id = 1, u_name = ''Test'', u_email = ''test@example.com'',
          u_password = ''hash-of-password123'' \<rparr>]
    = Some \<lparr> u_id = 1, u_name = ''Test'', u_email = ''test@example.com'',
          u_password = ''hash-of-password123'' \<rparr>"
    by (simp add: users_findOne_def)
  have matches: "(\<lambda>pw h. h = ''hash-of-'' @ pw)
      (dto_password \<lparr> dto_email = ''test@example.com'', dto_password = ''password123'' \<rparr>)
      (u_password \<lparr> u_id = 1, u_name = ''Test'', u_email = ''test@example.com'',
          u_password = ''hash-of-password123'' \<rparr>)"
    by simp
  show ?thesis
    using login_issues_token_pair [OF found, of "(\<lambda>pw h. h = ''hash-of-'' @ pw)", OF matches,
            of "\<lparr> api_key = ''k'', refresh_secret = ''r-secret'', access_secret = ''a-secret'' \<rparr>" 1000]
    by (simp add: jwtService_sign_def)
qed

text \<open>For every stored user the statement fails: neither the entity nor the migration
  makes \<^verbatim>\<open>email\<close> unique and \<^verbatim>\<open>UsersService.create\<close> checks nothing, so two stored
  users can share an email. The lookup returns one of them, and the other one's matching
  pair is rejected, whichever order the rows come in.\<close>

theorem login_every_stored_user_counterexample:
  "\<lparr> u_id = 2, u_name = ''Bob'', u_email = ''test@example.com'',
       u_password = ''hash-of-hunter2'' \<rparr>
     \<in> set [\<lparr> u_id = 1, u_name = ''Test'', u_email = ''test@example.com'',
                u_password = ''hash-of-password123'' \<rparr>,
              \<lparr> u_id = 2, u_name = ''Bob'', u_email = ''test@example.com'',
                u_password = ''hash-of-hunter2'' \<rparr>]
   \<and> (\<lambda>pw h. h = ''hash-of-'' @ pw) ''hunter2'' ''hash-of-hunter2''
   \<and> AuthService_login (\<lambda>pw h. h = ''hash-of-'' @ pw)
       \<lparr> api_key = ''k'', refresh_secret = ''r-secret'', access_secret = ''a-secret'' \<rparr>
       [\<lparr> u_id = 1, u_name = ''Test'', u_email = ''test@example.com'',
          u_password = ''hash-of-password123'' \<rparr>,
        \<lparr> u_id = 2, u_name = ''Bob'', u_email = ''test@example.com'',
          u_password = ''hash-of-hunter2'' \<rparr>]
       1000 \<lparr> dto_email = ''test@example.com'', dto_password = ''hunter2'' \<rparr>
     = Inl (UnauthorizedException ''Invalid password'')
   \<and> AuthService_login (\<lambda>pw h. h = ''hash-of-'' @ pw)
       \<lparr> api_key = ''k'', refresh_secret = ''r-secret'', access_secret = ''a-secret'' \<rparr>
       [\<lparr> u_id = 2, u_name = ''Bob'', u_email = ''test@example.com'',
          u_password = ''hash-of-hunter2'' \<rparr>,
        \<lparr> u_id = 1, u_name = ''Test'', u_email = ''test@example.com'',
          u_password = ''hash-of-password123'' \<rparr>]
       1000 \<lparr> dto_email = ''test@example.com'', dto_password = ''password123'' \<rparr>
     = Inl (UnauthorizedException ''Invalid password'')"
  by (simp add: AuthService_login_def UsersService_findUserByEmailAndPassword_def
        users_findOne_def)

text \<open>
  Claim C4. Every successful refresh call returns a newly issued access token, signed
  with the access secret, expiring one minute after the call, with payload the id and
  email of the user looked up by the presented token's payload id, and nothing else: the
  result has no other field, so no refresh token is issued. The presented refresh token
  is unchanged: it is accepted again at any time before its own expiry.
\<close>

theorem refreshToken_success:
  assumes "AuthService_refreshToken cfg users now tok = Inr r"
  shows "\<exists>p u expiry. tok = Signed p (refresh_secret cfg) expiry \<and> now < expiry
           \<and> users_findOne (\<lambda>u. u_id u = p_id p) users = Some u
           \<and> r = \<lparr> accessToken = jwtService_sign now \<lparr> p_id = u_id u, p_email = u_email u \<rparr>
                                   (access_secret cfg) (Minutes 1) \<rparr>
           \<and> accessToken r = Signed \<lparr> p_id = u_id u, p_email = u_email u \<rparr> (access_secret cfg) (now + 60)
           \<and> (\<forall>t. t < expiry \<longrightarrow>
                 AuthService_refreshToken cfg users t tok =
                   Inr \<lparr> accessToken = jwtService_sign t \<lparr> p_id = u_id u, p_email = u_email u \<rparr>
                                          (access_secret cfg) (Minutes 1) \<rparr>)"
proof (cases tok)
  case (Garbage s)
  with assms show ?thesis
    by (simp add: AuthService_refreshToken_def refreshToken_try_def)
next
  case (Signed p signer expiry)
  with assms have ok: "signer = refresh_secret cfg" "now < expiry"
    by (auto simp add: AuthService_refreshToken_def refreshToken_try_def split: if_splits)
  from assms Signed ok obtain u where
    u: "users_findOne (\<lambda>u. u_id u = p_id p) users = Some u"
    by (cases "users_findOne (\<lambda>u. u_id u = p_id p) users")
       (auto simp add: AuthService_refreshToken_def refreshToken_try_def UsersService_findUserById_def)
  from assms Signed ok u have r: "r = \<lparr> accessToken =
      jwtService_sign now \<lparr> p_id = u_id u, p_email = u_email u \<rparr> (access_secret cfg) (Minutes 1) \<rparr>"
    by (auto simp add: AuthService_refreshToken_def refreshToken_try_def UsersService_findUserById_def)
  have again: "\<forall>t. t < expiry \<longrightarrow>
      AuthService_refreshToken cfg users t tok =
        Inr \<lparr> accessToken = jwtService_sign t \<lparr> p_id = u_id u, p_email = u_email u \<rparr>
                               (access_secret cfg) (Minutes 1) \<rparr>"
    using Signed ok u
    by (simp add: AuthService_refreshToken_def refreshToken_try_def UsersService_findUserById_def)
  from Signed ok u r again show ?thesis
    by (simp add: jwtService_sign_def)
qed

theorem refreshToken_success_witness:
  "AuthService_refreshToken \<lparr> api_key = ''k'', refresh_secret = ''r-secret'', access_secret = ''a-secret'' \<rparr>
       [\<lparr> u_id = 1, u_name = ''Test'', u_email = ''test@example.com'',
          u_password = ''hash-of-password123'' \<rparr>]
       1000 (Signed \<lparr> p_id = 1, p_email = ''test@example.com'' \<rparr> ''r-secret'' 605800)
     = Inr \<lparr> accessToken = Signed \<lparr> p_id = 1, p_email = ''test@example.com'' \<rparr> ''a-secret'' 1060 \<rparr>
   \<and> AuthService_refreshToken \<lparr> api_key = ''k'', refresh_secret = ''r-secret'', access_secret = ''a-secret'' \<rparr>
       [\<lparr> u_id = 1, u_name = ''Test'', u_email = ''test@example.com'',
          u_password = ''hash-of-password123'' \<rparr>]
       2000 (Signed \<lparr> p_id = 1, p_email = ''test@example.com'' \<rparr> ''r-secret'' 605800)
     = Inr \<lparr> accessToken = Signed \<lparr> p_id = 1, p_email = ''test@example.com'' \<rparr> ''a-secret'' 2060 \<rparr>"
proof -
  have first: "AuthService_refreshToken \<lparr> api_key = ''k'', refresh_secret = ''r-secret'', access_secret = ''a-secret'' \<rparr>
       [\<lparr> u_id = 1, u_name = ''Test'', u_email = ''test@example.com'',
          u_password = ''hash-of-password123'' \<rparr>]
       1000 (Signed \<lparr> p_id = 1, p_email = ''test@example.com'' \<rparr> ''r-secret'' 605800)
     = Inr \<lparr> accessToken = Signed \<lparr> p_id = 1, p_email = ''test@example.com'' \<rparr> ''a-secret'' 1060 \<rparr>"
    by (simp add: AuthService_refreshToken_def refreshToken_try_def UsersService_findUserById_def
          users_findOne_def jwtService_sign_def)
  show ?thesis
    using refreshToken_success [OF first] first
    by (auto simp add: users_findOne_def jwtService_sign_def)
qed

section \<open>Token issuer and verifier\<close>

text \<open>
  Claim C5. Provided the access secret and the refresh secret differ, a token issued
  under one of them never verifies under the other, for every payload, issue time, time
  to live and verification time. In particular an access token presented to the refresh
  operation is rejected exactly as an arbitrary garbage string is.
\<close>

theorem secrets_separate_token_kinds:
  assumes "access_secret cfg \<noteq> refresh_secret cfg"
  shows "jwtService_verify t (jwtService_sign t0 p (access_secret cfg) ttl) (refresh_secret cfg)
           = Inl InvalidSignature
     \<and> jwtService_verify t (jwtService_sign t0 p (refresh_secret cfg) ttl) (access_secret cfg)
           = Inl InvalidSignature
     \<and> AuthService_refreshToken cfg users t (jwtService_sign t0 p (access_secret cfg) ttl)
           = Inl (UnauthorizedException ''Invalid refresh token'')
     \<and> AuthService_refreshToken cfg users t (jwtService_sign t0 p (access_secret cfg) ttl)
           = AuthService_refreshToken cfg users t (Garbage g)"
  using assms
  by (auto simp add: jwtService_sign_def AuthService_refreshToken_def refreshToken_try_def)

theorem secrets_separate_token_kinds_witness:
  "access_secret \<lparr> api_key = ''k'', refresh_secret = ''r-secret'', access_secret = ''a-secret'' \<rparr>
     \<noteq> refresh_secret \<lparr> api_key = ''k'', refresh_secret = ''r-secret'', access_secret = ''a-secret'' \<rparr>
   \<and> jwtService_verify 1000 (jwtService_sign 1000 \<lparr> p_id = 1, p_email = ''test@example.com'' \<rparr> ''a-secret'' (Minutes 1)) ''r-secret''
     = Inl InvalidSignature
   \<and> jwtService_verify 1000 (jwtService_sign 1000 \<lparr> p_id = 1, p_email = ''test@example.com'' \<rparr> ''r-secret'' (Days 7)) ''a-secret''
     = Inl InvalidSignature
   \<and> AuthService_refreshToken \<lparr> api_key = ''k'', refresh_secret = ''r-secret'', access_secret = ''a-secret'' \<rparr>
       [\<lparr> u_id = 1, u_name = ''Test'', u_email = ''test@example.com'',
          u_password = ''hash-of-password123'' \<rparr>]
       1000 (jwtService_sign 1000 \<lparr> p_id = 1, p_email = ''test@example.com'' \<rparr> ''a-secret'' (Minutes 1))
     = AuthService_refreshToken \<lparr> api_key = ''k'', refresh_secret = ''r-secret'', access_secret = ''a-secret'' \<rparr>
       [\<lparr> u_id = 1, u_name = ''Test'', u_email = ''test@example.com'',
          u_password = ''hash-of-password123'' \<rparr>]
       1000 (Garbage ''garbage'')"
proof -
  have differ: "access_secret \<lparr> api_key = ''k'', refresh_secret = ''r-secret'', access_secret = ''a-secret'' \<rparr>
     \<noteq> refresh_secret \<lparr> api_key = ''k'', refresh_secret = ''r-secret'', access_secret = ''a-secret'' \<rparr>"
    by simp
  show ?thesis
    using differ
      secrets_separate_token_kinds [OF differ, of 1000 1000 "\<lparr> p_id = 1, p_email = ''test@example.com'' \<rparr>" "Minutes 1"
        "[\<lparr> u_id = 1, u_name = ''Test'', u_email = ''test@example.com'',
          u_password = ''hash-of-password123'' \<rparr>]" "''garbage''"]
    by (simp add: jwtService_sign_def AuthService_refreshToken_def refreshToken_try_def)
qed

text \<open>
  Claim C6. For every payload, secret and time to live, verifying a token under the
  secret it was issued with gives back the payload exactly when the verification happens
  before the time to live has elapsed, and fails with \<open>Expired\<close> once it has elapsed.
\<close>

theorem sign_verify_roundtrip:
  "(t < t0 + span_seconds ttl \<longrightarrow>
      jwtService_verify t (jwtService_sign t0 p secret ttl) secret = Inr p)
   \<and> (t0 + span_seconds ttl \<le> t \<longrightarrow>
      jwtService_verify t (jwtService_sign t0 p secret ttl) secret = Inl Expired)"
  by (simp add: jwtService_sign_def)

theorem sign_verify_roundtrip_witness:
  "jwtService_verify 1059 (jwtService_sign 1000 \<lparr> p_id = 1, p_email = ''test@example.com'' \<rparr> ''a-secret'' (Minutes 1)) ''a-secret''
     = Inr \<lparr> p_id = 1, p_email = ''test@example.com'' \<rparr>
   \<and> jwtService_verify 1060 (jwtService_sign 1000 \<lparr> p_id = 1, p_email = ''test@example.com'' \<rparr> ''a-secret'' (Minutes 1)) ''a-secret''
     = Inl Expired"
  using sign_verify_roundtrip [of 1059 1000 "Minutes 1" "\<lparr> p_id = 1, p_email = ''test@example.com'' \<rparr>" "''a-secret''"]
        sign_verify_roundtrip [of 1060 1000 "Minutes 1" "\<lparr> p_id = 1, p_email = ''test@example.com'' \<rparr>" "''a-secret''"]
  by simp

section \<open>Response interceptor\<close>

text \<open>
  Claim C7, amended. For every handler result other than \<^verbatim>\<open>null\<close> and \<^verbatim>\<open>undefined\<close> the
  success envelope is built as follows. The message is the result's \<^verbatim>\<open>message\<close> field if
  that is truthy, else the response's \<^verbatim>\<open>locals.message\<close> if that is truthy, else
  "Success". The status code is the response status if truthy, else 200. The data field
  is the result's \<^verbatim>\<open>data\<close> sub-field if that is truthy, else \<^verbatim>\<open>undefined\<close> if the
  result's \<^verbatim>\<open>message\<close> field is truthy, else the whole result. The \<^verbatim>\<open>meta\<close> sub-field is
  passed through (\<^verbatim>\<open>undefined\<close> when the result has none).
\<close>

theorem success_envelope_by_truthiness:
  assumes "d \<noteq> JNull" and "d \<noteq> JUndefined"
  shows "\<exists>env. intercept res (Inr d) = Inr env
     \<and> message env = (if truthy (get_prop d ''message'') then get_prop d ''message''
                      else if truthy (res_locals_message res) then res_locals_message res
                      else JStr ''Success'')
     \<and> statusCode env = (if truthy (res_statusCode res) then res_statusCode res else JNum 200)
     \<and> data env = (if truthy (get_prop d ''data'') then get_prop d ''data''
                   else if truthy (get_prop d ''message'') then JUndefined
                   else d)
     \<and> meta env = get_prop d ''meta''"
  by (simp add: intercept_def intercept_map_non_nullish [OF assms] js_or_def)

theorem success_envelope_by_truthiness_witness:
  "\<exists>env. intercept \<lparr> res_locals_message = JUndefined, res_statusCode = JNum 201 \<rparr>
            (Inr (JObj [(''message'', JStr ''Todo created successfully'')])) = Inr env
     \<and> message env = JStr ''Todo created successfully''
     \<and> statusCode env = JNum 201
     \<and> data env = JUndefined
     \<and> meta env = JUndefined"
  using success_envelope_by_truthiness
          [of "JObj [(''message'', JStr ''Todo created successfully'')]"
              "\<lparr> res_locals_message = JUndefined, res_statusCode = JNum 201 \<rparr>"]
  by simp

text \<open>The wording in terms of presence fails: for the result \<^verbatim>\<open>{ data: 0 }\<close> on a response
  with \<^verbatim>\<open>locals.message = 'Created'\<close> the interceptor emits the whole result as data and
  "Created" as message, where the wording gives the data 0 and the message "Success".\<close>

theorem success_envelope_presence_counterexample:
  "intercept \<lparr> res_locals_message = JStr ''Created'', res_statusCode = JNum 201 \<rparr>
       (Inr (JObj [(''data'', JNum 0)]))
     = Inr \<lparr> statusCode = JNum 201, message = JStr ''Created'',
             data = JObj [(''data'', JNum 0)], meta = JUndefined \<rparr>
   \<and> claimed_success_envelope \<lparr> res_locals_message = JStr ''Created'', res_statusCode = JNum 201 \<rparr>
       (JObj [(''data'', JNum 0)])
     = \<lparr> statusCode = JNum 201, message = JStr ''Success'', data = JNum 0, meta = JUndefined \<rparr>
   \<and> intercept \<lparr> res_locals_message = JStr ''Created'', res_statusCode = JNum 201 \<rparr>
       (Inr (JObj [(''data'', JNum 0)]))
     \<noteq> Inr (claimed_success_envelope
               \<lparr> res_locals_message = JStr ''Created'', res_statusCode = JNum 201 \<rparr>
               (JObj [(''data'', JNum 0)]))"
  by (simp add: intercept_def intercept_map_def member_def opt_member_def nullish_def
        js_or_def claimed_success_envelope_def present_def)

text \<open>
  Claim C8, amended. For every thrown failure the error envelope has as status code the
  failure's \<^verbatim>\<open>status\<close> if that is truthy, else 500; as message the failure's nested
  response message if truthy, else the failure's own message if truthy, else "Internal
  server error"; as error the nested response error field if truthy, else the failure's
  name if truthy, else "Error"; and \<^verbatim>\<open>null\<close> as data in every case. The same envelope is
  built whatever raised the failure, the handler or the success callback itself.
\<close>

theorem error_envelope_by_truthiness:
  "intercept res (Inl e) =
     Inl \<lparr> statusCode = (if truthy (opt_member e ''status'') then opt_member e ''status''
                          else JNum 500),
           message = (if truthy (opt_member (opt_member e ''response'') ''message'')
                      then opt_member (opt_member e ''response'') ''message''
                      else if truthy (opt_member e ''message'') then opt_member e ''message''
                      else JStr ''Internal server error''),
           data = JNull,
           error = (if truthy (opt_member (opt_member e ''response'') ''error'')
                    then opt_member (opt_member e ''response'') ''error''
                    else if truthy (opt_member e ''name'') then opt_member e ''name''
                    else JStr ''Error'') \<rparr>
   \<and> (\<forall>d thrown. intercept_map res d = Inl thrown
         \<longrightarrow> intercept res (Inr d) = intercept res (Inl thrown))"
  by (simp add: intercept_def intercept_catchError_def js_or_def Let_def)

theorem error_envelope_by_truthiness_witness:
  "intercept \<lparr> res_locals_message = JUndefined, res_statusCode = JNum 200 \<rparr>
       (Inl (exception_object (NotFoundException ''Todo not found'')))
     = Inl \<lparr> statusCode = JNum 404, message = JStr ''Todo not found'', data = JNull,
             error = JStr ''Not Found'' \<rparr>
   \<and> intercept \<lparr> res_locals_message = JUndefined, res_statusCode = JNum 200 \<rparr> (Inr JNull)
     = Inl \<lparr> statusCode = JNum 500,
             message = JStr (''Cannot read properties of null (reading '' @ [CHR 0x27] @ ''message'' @ [CHR 0x27] @ '')''),
             data = JNull, error = JStr ''TypeError'' \<rparr>"
  using error_envelope_by_truthiness
          [of "\<lparr> res_locals_message = JUndefined, res_statusCode = JNum 200 \<rparr>"
              "exception_object (NotFoundException ''Todo not found'')"]
        error_envelope_by_truthiness
          [of "\<lparr> res_locals_message = JUndefined, res_statusCode = JNum 200 \<rparr>"
              "type_error JNull ''message''"]
        intercept_map_nullish [of JNull "\<lparr> res_locals_message = JUndefined, res_statusCode = JNum 200 \<rparr>"]
  by (simp add: exception_object_def opt_member_def nullish_def type_error_def)

text \<open>The wording in terms of absence fails: for the failure
  \<^verbatim>\<open>{ status: 0, name: 'Error', message: '' }\<close> the interceptor emits status code 500 and
  the message "Internal server error", where the wording gives the status code 0 and the
  empty message.\<close>

theorem error_envelope_presence_counterexample:
  "intercept \<lparr> res_locals_message = JUndefined, res_statusCode = JNum 200 \<rparr>
       (Inl (JObj [(''status'', JNum 0), (''name'', JStr ''Error''), (''message'', JStr '''')]))
     = Inl \<lparr> statusCode = JNum 500, message = JStr ''Internal server error'', data = JNull,
             error = JStr ''Error'' \<rparr>
   \<and> claimed_error_envelope
       (JObj [(''status'', JNum 0), (''name'', JStr ''Error''), (''message'', JStr '''')])
     = \<lparr> statusCode = JNum 0, message = JStr '''', data = JNull, error = JStr ''Error'' \<rparr>
   \<and> intercept \<lparr> res_locals_message = JUndefined, res_statusCode = JNum 200 \<rparr>
       (Inl (JObj [(''status'', JNum 0), (''name'', JStr ''Error''), (''message'', JStr '''')]))
     \<noteq> Inl (claimed_error_envelope
               (JObj [(''status'', JNum 0), (''name'', JStr ''Error''), (''message'', JStr '''')]))"
  by (simp add: intercept_def intercept_catchError_def opt_member_def nullish_def
        js_or_def claimed_error_envelope_def present_def)

text \<open>
  Claim C10. The success path of the interceptor is total only for handler results other
  than \<^verbatim>\<open>null\<close> and \<^verbatim>\<open>undefined\<close>: for these two it reads \<^verbatim>\<open>.message\<close> of the result
  without a guard and throws a \<^verbatim>\<open>TypeError\<close> (which the error path then turns into an
  error envelope with status code 500), and for every other result it produces the
  success envelope.
\<close>

theorem success_path_total_iff_non_null:
  "((d = JNull \<or> d = JUndefined) \<longrightarrow>
      intercept_map res d = Inl (type_error d ''message'')
      \<and> (\<exists>env. intercept res (Inr d) = Inl env
            \<and> statusCode env = JNum 500 \<and> error env = JStr ''TypeError'' \<and> data env = JNull))
   \<and> ((d \<noteq> JNull \<and> d \<noteq> JUndefined) \<longrightarrow>
      (\<exists>env. intercept_map res d = Inr env \<and> intercept res (Inr d) = Inr env))"
  by (auto simp add: intercept_def intercept_map_nullish intercept_map_non_nullish
        intercept_catchError_def type_error_def opt_member_def nullish_def js_or_def)

theorem success_path_total_iff_non_null_witness:
  "intercept_map \<lparr> res_locals_message = JUndefined, res_statusCode = JNum 200 \<rparr> JNull
     = Inl (type_error JNull ''message'')
   \<and> (\<exists>env. intercept \<lparr> res_locals_message = JUndefined, res_statusCode = JNum 200 \<rparr> (Inr JNull) = Inl env
         \<and> statusCode env = JNum 500 \<and> error env = JStr ''TypeError'' \<and> data env = JNull)
   \<and> (\<exists>env. intercept_map \<lparr> res_locals_message = JUndefined, res_statusCode = JNum 200 \<rparr> (JArr []) = Inr env
         \<and> intercept \<lparr> res_locals_message = JUndefined, res_statusCode = JNum 200 \<rparr> (Inr (JArr [])) = Inr env)"
  using success_path_total_iff_non_null [of JNull "\<lparr> res_locals_message = JUndefined, res_statusCode = JNum 200 \<rparr>"]
        success_path_total_iff_non_null [of "JArr []" "\<lparr> res_locals_message = JUndefined, res_statusCode = JNum 200 \<rparr>"]
  by simp

section \<open>Todo store\<close>

text \<open>
  Claim C9. For every todo id, update and remove fail with \<open>NotFoundException\<close> when no
  todo has that id. When one has, remove deletes the rows with that id and an update
  that sets at least one field writes it to them (an update that sets no field is
  rejected by the repository, whoever owns the todo). Neither operation compares the
  owner of the todo with the identity of the caller: had every todo belonged to the
  caller, the outcome would be the same up to the owner column. So any authenticated
  user can update or delete any other user's todo by id.
\<close>

theorem todos_update_remove_ignore_owner:
  "((\<forall>t\<in>set todos. t_id t \<noteq> i) \<longrightarrow>
       TodosService_update todos i dto = Inl (HttpThrown (NotFoundException ''Todo not found''))
     \<and> TodosService_remove todos i = Inl (NotFoundException ''Todo not found''))
   \<and> ((\<exists>t\<in>set todos. t_id t = i) \<longrightarrow>
       TodosService_remove todos i
         = Inr (filter (\<lambda>t. t_id t \<noteq> i) todos, ''Todo deleted successfully''))
   \<and> ((\<exists>t\<in>set todos. t_id t = i)
        \<and> (upd_title dto \<noteq> None \<or> upd_description dto \<noteq> None) \<longrightarrow>
       TodosService_update todos i dto
         = Inr (map (\<lambda>t. if t_id t = i then apply_update dto t else t) todos,
                ''Todo updated successfully''))
   \<and> ((\<exists>t\<in>set todos. t_id t = i)
        \<and> upd_title dto = None \<and> upd_description dto = None \<longrightarrow>
       TodosService_update todos i dto = Inl UpdateValuesMissingError)
   \<and> TodosService_update (map (\<lambda>t. t\<lparr>t_user_id := caller\<rparr>) todos) i dto
       = map_sum id (map_prod (map (\<lambda>t. t\<lparr>t_user_id := caller\<rparr>)) id)
           (TodosService_update todos i dto)
   \<and> TodosService_remove (map (\<lambda>t. t\<lparr>t_user_id := caller\<rparr>) todos) i
       = map_sum id (map_prod (map (\<lambda>t. t\<lparr>t_user_id := caller\<rparr>)) id)
           (TodosService_remove todos i)"
proof -
  have absent: "(\<forall>t\<in>set todos. t_id t \<noteq> i) \<longrightarrow>
       TodosService_update todos i dto = Inl (HttpThrown (NotFoundException ''Todo not found''))
     \<and> TodosService_remove todos i = Inl (NotFoundException ''Todo not found'')"
    by (simp add: TodosService_update_def TodosService_remove_def find_todo_None [symmetric])
  have found: "(\<exists>t\<in>set todos. t_id t = i) \<longrightarrow>
       TodosService_remove todos i
         = Inr (filter (\<lambda>t. t_id t \<noteq> i) todos, ''Todo deleted successfully'')
     \<and> TodosService_update todos i dto
         = (case todoRepository_update todos i dto of
              Inl thrown \<Rightarrow> Inl thrown
            | Inr todos' \<Rightarrow> Inr (todos', ''Todo updated successfully''))"
  proof
    assume "\<exists>t\<in>set todos. t_id t = i"
    then have "find (\<lambda>t. t_id t = i) todos \<noteq> None"
      by (simp add: find_todo_None)
    then obtain a where "find (\<lambda>t. t_id t = i) todos = Some a" by blast
    then show "TodosService_remove todos i
         = Inr (filter (\<lambda>t. t_id t \<noteq> i) todos, ''Todo deleted successfully'')
     \<and> TodosService_update todos i dto
         = (case todoRepository_update todos i dto of
              Inl thrown \<Rightarrow> Inl thrown
            | Inr todos' \<Rightarrow> Inr (todos', ''Todo updated successfully''))"
      by (simp add: TodosService_update_def TodosService_remove_def)
  qed
  have removed: "(\<exists>t\<in>set todos. t_id t = i) \<longrightarrow>
       TodosService_remove todos i
         = Inr (filter (\<lambda>t. t_id t \<noteq> i) todos, ''Todo deleted successfully'')"
    using found by blast
  have written: "(\<exists>t\<in>set todos. t_id t = i)
        \<and> (upd_title dto \<noteq> None \<or> upd_description dto \<noteq> None) \<longrightarrow>
       TodosService_update todos i dto
         = Inr (map (\<lambda>t. if t_id t = i then apply_update dto t else t) todos,
                ''Todo updated successfully'')"
  proof
    assume a: "(\<exists>t\<in>set todos. t_id t = i)
        \<and> (upd_title dto \<noteq> None \<or> upd_description dto \<noteq> None)"
    then have "todoRepository_update todos i dto
        = Inr (map (\<lambda>t. if t_id t = i then apply_update dto t else t) todos)"
      by (auto simp add: todoRepository_update_def)
    with a found show "TodosService_update todos i dto
         = Inr (map (\<lambda>t. if t_id t = i then apply_update dto t else t) todos,
                ''Todo updated successfully'')"
      by simp
  qed
  have rejected: "(\<exists>t\<in>set todos. t_id t = i)
        \<and> upd_title dto = None \<and> upd_description dto = None \<longrightarrow>
       TodosService_update todos i dto = Inl UpdateValuesMissingError"
  proof
    assume a: "(\<exists>t\<in>set todos. t_id t = i)
        \<and> upd_title dto = None \<and> upd_description dto = None"
    then have "todoRepository_update todos i dto = Inl UpdateValuesMissingError"
      by (simp add: todoRepository_update_def)
    with a found show "TodosService_update todos i dto = Inl UpdateValuesMissingError"
      by simp
  qed
  from absent removed written rejected
    update_chown [of caller todos i dto] remove_chown [of caller todos i]
  show ?thesis by (simp only: simp_thms)
qed

theorem todos_update_remove_ignore_owner_witness:
  "TodosService_remove
       [\<lparr> t_id = 7, t_title = ''Buy groceries'', t_description = ''for the week'',
          t_user_id = 1, t_created_at = 0 \<rparr>] 8
     = Inl (NotFoundException ''Todo not found'')
   \<and> TodosService_update
       [\<lparr> t_id = 7, t_title = ''Buy groceries'', t_description = ''for the week'',
          t_user_id = 1, t_created_at = 0 \<rparr>] 8
       \<lparr> upd_title = Some ''Taken over'', upd_description = None \<rparr>
     = Inl (HttpThrown (NotFoundException ''Todo not found''))
   \<and> TodosService_remove
       [\<lparr> t_id = 7, t_title = ''Buy groceries'', t_description = ''for the week'',
          t_user_id = 1, t_created_at = 0 \<rparr>] 7
     = Inr ([], ''Todo deleted successfully'')
   \<and> TodosService_update
       [\<lparr> t_id = 7, t_title = ''Buy groceries'', t_description = ''for the week'',
          t_user_id = 1, t_created_at = 0 \<rparr>] 7
       \<lparr> upd_title = Some ''Taken over'', upd_description = None \<rparr>
     = Inr ([\<lparr> t_id = 7, t_title = ''Taken over'', t_description = ''for the week'',
               t_user_id = 1, t_created_at = 0 \<rparr>], ''Todo updated successfully'')
   \<and> TodosService_update
       [\<lparr> t_id = 7, t_title = ''Buy groceries'', t_description = ''for the week'',
          t_user_id = 1, t_created_at = 0 \<rparr>] 7
       \<lparr> upd_title = None, upd_description = None \<rparr>
     = Inl UpdateValuesMissingError"
proof -
  let ?todos = "[\<lparr> t_id = 7, t_title = ''Buy groceries'', t_description = ''for the week'',
                   t_user_id = 1, t_created_at = 0 \<rparr>]"
  let ?set_title = "\<lparr> upd_title = Some ''Taken over'', upd_description = None \<rparr>"
  let ?set_nothing = "\<lparr> upd_title = None, upd_description = (None :: string option) \<rparr>"
  note absent =
    todos_update_remove_ignore_owner [of ?todos 8 ?set_title 2, THEN conjunct1]
  note removed =
    todos_update_remove_ignore_owner [of ?todos 7 ?set_title 2, THEN conjunct2, THEN conjunct1]
  note written =
    todos_update_remove_ignore_owner [of ?todos 7 ?set_title 2,
      THEN conjunct2, THEN conjunct2, THEN conjunct1]
  note rejected =
    todos_update_remove_ignore_owner [of ?todos 7 ?set_nothing 2,
      THEN conjunct2, THEN conjunct2, THEN conjunct2, THEN conjunct1]
  show ?thesis
    using absent removed written rejected
    by (simp add: apply_update_def)
qed

end
